theory Spec2Isabelle
  imports Complex_Main "HOL-Library.Monad_Syntax"
begin

section \<open>The binary-network engine of api/index.js\<close>

text \<open>
  The engine keeps one document per wallet in a MongoDB collection, mirrors the ledger
  (a contract read through web3) into it, and computes the matching bonus.

  Conventions of the embedding.
  \<^item> The collection is the list of its documents in natural order; \<open>findOne\<close> and
    \<open>updateOne\<close> act on the first document that matches, \<open>find\<close> keeps the order.
  \<^item> A document holds the fields the engine reads. The numeric fields are stored by the
    code as decimal strings of whole numbers (ledger amounts and sums of them) and are
    integers here. The fields that the engine writes and never reads back (\<open>upTo\<close>,
    \<open>invested_leader\<close>, \<open>hand\<close>, \<open>retirableA\<close>, \<open>idBlock_old\<close>) are left out, together
    with the ledger reads that feed only them.
  \<^item> BigNumber arithmetic is exact. Where the code goes through a JavaScript number
    (\<open>toNumber\<close>, to compare two values and to pick the smaller one), the model has
    \<open>toNumber\<close>, which is taken as exact: it is on whole numbers up to \<open>2^53\<close> in magnitude.
  \<^item> An \<open>async\<close> function returns an option: \<open>None\<close> is a rejected promise (an exception
    that the code does not catch). A call that the code does not await is run to its end
    at the place of the call.
  \<^item> A ledger read returns \<open>None\<close> when the call is rejected.
\<close>

subsection \<open>Documents and the collection\<close>

type_synonym wallet = string

definition WalletVacia :: wallet where
  "WalletVacia = ''0x0000000000000000000000000000000000000000''"

definition factorPuntos :: int where
  "factorPuntos = 100"

record user =
  wallet :: wallet
  registered :: bool
  invested :: int
  referer :: wallet
  up :: wallet
  left :: wallet
  lReclamados :: int
  lExtra :: int
  lPersonas :: int
  lPuntos :: int
  right :: wallet
  rReclamados :: int
  rExtra :: int
  rPersonas :: int
  rPuntos :: int
  idBlock :: int
  puntosActivos :: int

text \<open>The process state: the collection and the in-memory index \<open>binarioindexado\<close>.\<close>

record state =
  db :: "user list"
  binarioindexado :: "wallet \<Rightarrow> user option"

definition findOne :: "user list \<Rightarrow> wallet \<Rightarrow> user option" where
  "findOne docs w = find (\<lambda>u. wallet u = w) docs"

fun updateOne :: "user list \<Rightarrow> wallet \<Rightarrow> (user \<Rightarrow> user) \<Rightarrow> user list" where
  "updateOne [] w f = []"
| "updateOne (u # us) w f = (if wallet u = w then f u # us else u # updateOne us w f)"

definition find_left :: "user list \<Rightarrow> wallet \<Rightarrow> user list" where
  "find_left docs w = filter (\<lambda>u. left u = w) docs"

definition find_right :: "user list \<Rightarrow> wallet \<Rightarrow> user list" where
  "find_right docs w = filter (\<lambda>u. right u = w) docs"

definition save :: "user list \<Rightarrow> user \<Rightarrow> user list" where
  "save docs u = docs @ [u]"

definition update_db :: "state \<Rightarrow> wallet \<Rightarrow> (user \<Rightarrow> user) \<Rightarrow> state" where
  "update_db s w f = s\<lparr>db := updateOne (db s) w f\<rparr>"

subsection \<open>Strings\<close>

definition lower_char :: "char \<Rightarrow> char" where
  "lower_char c =
     (let n = (of_char c :: nat) in if 65 \<le> n \<and> n \<le> 90 then char_of (n + 32) else c)"

definition toLowerCase :: "string \<Rightarrow> string" where
  "toLowerCase s = map lower_char s"



subsection \<open>The ledger\<close>

record investor =
  inv_registered :: bool
  inv_invested :: int

record deposito =
  valor :: int
  pasivo :: bool

text \<open>What \<open>corteBinarioDo(...).send\<close> comes back with: the receipt's transaction hash, or
  the text of the error (\<open>e.toString()\<close>).\<close>

datatype envio = Enviado string | Fallo string

text \<open>\<open>estimateGas\<close> and \<open>send\<close> are the two calls on
  \<open>corteBinarioDo(wallet, retBinario, pRango, 0)\<close>; \<open>send\<close> also takes the gas.\<close>

record ledger =
  investors :: "wallet \<Rightarrow> investor option"
  upline :: "wallet \<Rightarrow> (wallet \<times> int) option"
  addressToId :: "wallet \<Rightarrow> int option"
  verListaDepositos :: "wallet \<Rightarrow> deposito list option"
  estimateGas :: "wallet \<Rightarrow> int \<Rightarrow> int \<Rightarrow> int option"
  send :: "wallet \<Rightarrow> int \<Rightarrow> int \<Rightarrow> int \<Rightarrow> envio"

subsection \<open>The matching bonus\<close>

text \<open>\<open>toNumber\<close> of bignumber.js gives the value as a JavaScript number. A whole number
  of magnitude up to \<open>2^53\<close> is its own double; the conversion is taken as exact.\<close>

definition toNumber :: "int \<Rightarrow> int" where
  "toNumber n = n"

declare toNumber_def [simp]

text \<open>\<open>dp(0)\<close> under bignumber.js's default rounding mode, ROUND_HALF_UP: to the nearest
  whole number, a half away from zero.\<close>

definition dp0 :: "rat \<Rightarrow> int" where
  "dp0 x = (if 0 \<le> x then \<lfloor>x + 1 / 2\<rfloor> else - \<lfloor>- x + 1 / 2\<rfloor>)"

text \<open>\<open>dp(0)\<close> of a BigNumber that holds a whole number.\<close>

definition dp0_entero :: "int \<Rightarrow> int" where
  "dp0_entero n = dp0 (of_int n)"



subsection \<open>Creating and refreshing a document\<close>

datatype respuesta = Objeto_vacio | Documento user | Nulo

definition investor_o_defecto :: "ledger \<Rightarrow> wallet \<Rightarrow> investor" where
  "investor_o_defecto L w =
     (case investors L w of None \<Rightarrow> \<lparr>inv_registered = False, inv_invested = 0\<rparr> | Some i \<Rightarrow> i)"

text \<open>The loop of \<open>crearUsuario\<close> over the deposits: \<open>(invertido, leader)\<close>.\<close>

fun sumar_depositos :: "deposito list \<Rightarrow> int \<times> int \<Rightarrow> int \<times> int" where
  "sumar_depositos [] acc = acc"
| "sumar_depositos (d # ds) (invertido, leader) =
     (if pasivo d then sumar_depositos ds (invertido + valor d, leader)
      else sumar_depositos ds (invertido, leader + valor d))"

definition usuario_nuevo :: "wallet \<Rightarrow> int \<Rightarrow> user" where
  "usuario_nuevo w invertidoReal =
     \<lparr>wallet = w, registered = False, invested = invertidoReal, referer = WalletVacia, up = WalletVacia,
      left = WalletVacia, lReclamados = 0, lExtra = 0, lPersonas = 0, lPuntos = 0,
      right = WalletVacia, rReclamados = 0, rExtra = 0, rPersonas = 0, rPuntos = 0,
      idBlock = 0, puntosActivos = 0\<rparr>"

definition crearUsuario :: "ledger \<Rightarrow> state \<Rightarrow> wallet \<Rightarrow> (state \<times> respuesta) option" where
  "crearUsuario L s from0 =
     (let from = toLowerCase from0;
          investorNew = investor_o_defecto L from
      in do {
        invertidoReal \<leftarrow>
          (if inv_registered investorNew then do {
             depositos \<leftarrow> verListaDepositos L from;
             Some (case sumar_depositos depositos (0, 0) of (invertido, leader) \<Rightarrow>
                     if toNumber leader > 0
                     then (if toNumber invertido > toNumber 0 then invertido else 0)
                     else inv_invested investorNew)
           } else Some 0);
        (case findOne (db s) from of
           None \<Rightarrow> do {
             newUser \<leftarrow>
               (if inv_registered investorNew then do {
                  i \<leftarrow> addressToId L from;
                  consulta \<leftarrow> upline L from;
                  Some ((usuario_nuevo from invertidoReal)
                          \<lparr>registered := True, idBlock := i, referer := toLowerCase (fst consulta)\<rparr>)
                } else Some (usuario_nuevo from invertidoReal));
             Some (s\<lparr>db := save (db s) newUser\<rparr>, Documento newUser)
           }
         | Some userTemp \<Rightarrow>
             (let s' = update_db s from (\<lambda>u. u\<lparr>invested := invertidoReal\<rparr>)
              in Some (s', case findOne (db s') from of None \<Rightarrow> Nulo | Some u \<Rightarrow> Documento u)))
      })"

definition actualizarUsuario :: "ledger \<Rightarrow> state \<Rightarrow> wallet \<Rightarrow> (state \<times> bool) option" where
  "actualizarUsuario L s from0 =
     (let from = toLowerCase from0 in
      case findOne (db s) from of
        None \<Rightarrow> Some (s, False)
      | Some userTemp \<Rightarrow>
          (let investorNew = investor_o_defecto L from in
           if inv_registered investorNew then do {
             i \<leftarrow> addressToId L from;
             consulta \<leftarrow> upline L from;
             depositos \<leftarrow> verListaDepositos L from;
             Some (update_db s from
                     (\<lambda>u. (if snd consulta \<le> 1 \<and> referer userTemp = WalletVacia
                            then u\<lparr>referer := toLowerCase (fst consulta)\<rparr> else u)
                           \<lparr>idBlock := i, registered := True,
                            invested := inv_invested investorNew\<rparr>), True)
           } else
             Some (update_db s from (\<lambda>u. u\<lparr>registered := False, invested := 0\<rparr>), True)))"

text \<open>\<open>consultarUsuario\<close> up to its last parameter, \<open>conectarUp\<close>: what a call that leaves
  \<open>conectarUp\<close> undefined runs.\<close>

definition consultarUsuario_base ::
  "ledger \<Rightarrow> state \<Rightarrow> wallet \<Rightarrow> bool \<Rightarrow> bool \<Rightarrow> (state \<times> respuesta) option" where
  "consultarUsuario_base L s from0 agregateBinario updateInfoBlockchain =
     (let from = toLowerCase from0 in
      if from = ''0x0000000000000000000000000000000000000000'' then Some (s, Objeto_vacio)
      else do {
        s1 \<leftarrow> (if updateInfoBlockchain then map_option fst (actualizarUsuario L s from)
               else Some s);
        (s2, userTemp) \<leftarrow>
          (case findOne (db s1) from of
             None \<Rightarrow> crearUsuario L s1 from
           | Some u \<Rightarrow> Some (s1, Documento u));
        Some (if agregateBinario
              then (case userTemp of
                      Documento u \<Rightarrow> s2\<lparr>binarioindexado := (binarioindexado s2)(from \<mapsto> u)\<rparr>
                    | _ \<Rightarrow> s2\<lparr>binarioindexado := (binarioindexado s2)(from := None)\<rparr>)
              else s2, userTemp)
      })"

text \<open>A call that is not awaited: its rejection does not reach the caller.\<close>

definition sin_esperar :: "state \<Rightarrow> (state \<times> 'a) option \<Rightarrow> state" where
  "sin_esperar s r = (case r of None \<Rightarrow> s | Some (s', _) \<Rightarrow> s')"

subsection \<open>Reading and settling the bonus\<close>






subsection \<open>Resolving the upline\<close>

text \<open>The search for the winner among the documents that hold \<open>from\<close> as child:
  \<open>menor\<close> starts at the first document's \<open>idBlock\<close>, \<open>ganador\<close> at index 0.\<close>

fun buscar_ganador :: "user list \<Rightarrow> nat \<Rightarrow> int \<Rightarrow> nat \<Rightarrow> nat" where
  "buscar_ganador [] index menor ganador = ganador"
| "buscar_ganador (u # us) index menor ganador =
     (if idBlock u \<noteq> 0 \<and> idBlock u < menor
      then buscar_ganador us (Suc index) (idBlock u) index
      else buscar_ganador us (Suc index) menor ganador)"

text \<open>The \<open>while (accion === 0)\<close> loop that walks down the left chain from the referer.
  A missing document makes the left loop read \<open>userRef.wallet\<close> of \<open>null\<close>, which throws.\<close>

function ubicar_izquierda :: "state \<Rightarrow> wallet \<Rightarrow> wallet \<Rightarrow> wallet list \<Rightarrow> state option" where
  "ubicar_izquierda s from buscando lista =
     (case findOne (db s) buscando of
        None \<Rightarrow> None
      | Some userRef \<Rightarrow>
          if left userRef = from
          then Some (update_db s from (\<lambda>u. u\<lparr>up := wallet userRef\<rparr>))
          else if left userRef = WalletVacia \<and> wallet userRef \<noteq> from
          then Some (update_db (update_db s (wallet userRef) (\<lambda>u. u\<lparr>left := from\<rparr>))
                       from (\<lambda>u. u\<lparr>up := wallet userRef\<rparr>))
          else if wallet userRef \<notin> set lista
          then ubicar_izquierda s from (left userRef) (lista @ [wallet userRef])
          else Some (update_db s (wallet userRef) (\<lambda>u. u\<lparr>left := WalletVacia, lPuntos := 0\<rparr>)))"
  by pat_completeness auto
termination
proof (relation "measure (\<lambda>(s, from, buscando, lista). card (wallet ` set (db s) - set lista))")
  show "wf (measure (\<lambda>(s, from, buscando, lista). card (wallet ` set (db s) - set lista)))"
    by simp
next
  fix s :: state and "from" buscando :: wallet and lista :: "wallet list" and x2 :: user
  assume f: "findOne (db s) buscando = Some x2" and n: "wallet x2 \<notin> set lista"
  from f have "x2 \<in> set (db s)"
    unfolding findOne_def by (auto simp: find_Some_iff)
  then have m: "wallet x2 \<in> wallet ` set (db s) - set lista"
    using n by simp
  have e: "wallet ` set (db s) - set (lista @ [wallet x2])
             = (wallet ` set (db s) - set lista) - {wallet x2}"
    by auto
  have "finite (wallet ` set (db s) - set lista)"
    by simp
  from card_Diff1_less [OF this m]
  have "card (wallet ` set (db s) - set (lista @ [wallet x2]))
          < card (wallet ` set (db s) - set lista)"
    unfolding e .
  then show "((s, from, left x2, lista @ [wallet x2]), (s, from, buscando, lista))
               \<in> measure (\<lambda>(s, from, buscando, lista). card (wallet ` set (db s) - set lista))"
    by simp
qed

text \<open>The right loop; here a missing document is handed to \<open>consultarUsuario\<close>, not
  awaited, and the loop ends.\<close>

function ubicar_derecha ::
  "ledger \<Rightarrow> state \<Rightarrow> wallet \<Rightarrow> wallet \<Rightarrow> wallet list \<Rightarrow> state option" where
  "ubicar_derecha L s from buscando lista =
     (case findOne (db s) buscando of
        None \<Rightarrow> Some (sin_esperar s (consultarUsuario_base L s buscando False False))
      | Some userRef \<Rightarrow>
          if right userRef = from
          then Some (update_db s from (\<lambda>u. u\<lparr>up := wallet userRef\<rparr>))
          else if right userRef = WalletVacia \<and> wallet userRef \<noteq> from
          then Some (update_db (update_db s (wallet userRef) (\<lambda>u. u\<lparr>right := from\<rparr>))
                       from (\<lambda>u. u\<lparr>up := wallet userRef\<rparr>))
          else if buscando \<notin> set lista
          then ubicar_derecha L s from (right userRef) (lista @ [buscando])
          else Some (update_db s buscando (\<lambda>u. u\<lparr>right := WalletVacia, rPuntos := 0\<rparr>)))"
  by pat_completeness auto
termination
proof (relation "measure (\<lambda>(L, s, from, buscando, lista). card (wallet ` set (db s) - set lista))")
  show "wf (measure (\<lambda>(L, s, from, buscando, lista). card (wallet ` set (db s) - set lista)))"
    by simp
next
  fix L :: ledger and s :: state and "from" buscando :: wallet and lista :: "wallet list"
    and x2 :: user
  assume f: "findOne (db s) buscando = Some x2" and n: "buscando \<notin> set lista"
  from f have "x2 \<in> set (db s)" and "wallet x2 = buscando"
    unfolding findOne_def by (auto simp: find_Some_iff)
  then have m: "buscando \<in> wallet ` set (db s) - set lista"
    using n by auto
  have e: "wallet ` set (db s) - set (lista @ [buscando])
             = (wallet ` set (db s) - set lista) - {buscando}"
    by auto
  have "finite (wallet ` set (db s) - set lista)"
    by simp
  from card_Diff1_less [OF this m]
  have "card (wallet ` set (db s) - set (lista @ [buscando]))
          < card (wallet ` set (db s) - set lista)"
    unfolding e .
  then show "((L, s, from, right x2, lista @ [buscando]), (L, s, from, buscando, lista))
               \<in> measure (\<lambda>(L, s, from, buscando, lista). card (wallet ` set (db s) - set lista))"
    by simp
qed

text \<open>The branch \<open>parseInt(hand) === 0\<close>: place \<open>from\<close> on the left, then clear every
  document that holds it on the right.\<close>

definition conectar_izquierda :: "state \<Rightarrow> user \<Rightarrow> wallet \<Rightarrow> wallet \<Rightarrow> state option" where
  "conectar_izquierda s userTemp from ref =
     (let ubication = find_left (db s) from in do {
        s1 \<leftarrow>
          (if length ubication \<ge> 1 then
             (if length ubication = 1
              then Some (if up userTemp \<noteq> wallet (ubication ! 0)
                         then update_db s from (\<lambda>u. u\<lparr>up := wallet (ubication ! 0)\<rparr>) else s)
              else (let ganador = buscar_ganador ubication 0 (idBlock (ubication ! 0)) 0;
                        s' = update_db s from (\<lambda>u. u\<lparr>up := wallet (ubication ! ganador)\<rparr>)
                    in Some (foldl (\<lambda>t index.
                                      if index \<noteq> ganador
                                      then update_db t (wallet (ubication ! ganador))
                                             (\<lambda>u. u\<lparr>left := WalletVacia, lPuntos := 0\<rparr>)
                                      else t)
                               s' [0..<length ubication])))
           else ubicar_izquierda s from ref []);
        Some (foldl (\<lambda>t a. update_db t (wallet a) (\<lambda>u. u\<lparr>right := WalletVacia, rPuntos := 0\<rparr>))
                s1 (find_right (db s1) from))
      })"

text \<open>The branch \<open>parseInt(hand) === 1\<close>, the mirror image.\<close>

definition conectar_derecha ::
  "ledger \<Rightarrow> state \<Rightarrow> user \<Rightarrow> wallet \<Rightarrow> wallet \<Rightarrow> state option" where
  "conectar_derecha L s userTemp from ref =
     (let ubication = find_right (db s) from in do {
        s1 \<leftarrow>
          (if length ubication \<ge> 1 then
             (if length ubication = 1
              then Some (if up userTemp \<noteq> wallet (ubication ! 0)
                         then update_db s from (\<lambda>u. u\<lparr>up := wallet (ubication ! 0)\<rparr>) else s)
              else (let ganador = buscar_ganador ubication 0 (idBlock (ubication ! 0)) 0;
                        s' = update_db s from (\<lambda>u. u\<lparr>up := wallet (ubication ! ganador)\<rparr>)
                    in Some (foldl (\<lambda>t index.
                                      if index \<noteq> ganador
                                      then update_db t (wallet (ubication ! ganador))
                                             (\<lambda>u. u\<lparr>right := WalletVacia, rPuntos := 0\<rparr>)
                                      else t)
                               s' [0..<length ubication])))
           else ubicar_derecha L s from ref []);
        Some (foldl (\<lambda>t a. update_db t (wallet a) (\<lambda>u. u\<lparr>left := WalletVacia, lPuntos := 0\<rparr>))
                s1 (find_left (db s1) from))
      })"

definition conectarUpline :: "ledger \<Rightarrow> state \<Rightarrow> wallet \<Rightarrow> (state \<times> bool) option" where
  "conectarUpline L s from0 =
     (let from = toLowerCase from0 in
      case findOne (db s) from of
        None \<Rightarrow> Some (s, False)
      | Some userTemp \<Rightarrow>
          (case upline L from of
             None \<Rightarrow> Some (s, False)
           | Some consulta \<Rightarrow>
               (let hand = snd consulta; ref = toLowerCase (fst consulta) in do {
                  (s3, res) \<leftarrow>
                    (case findOne (db s) ref of
                       Some userRef \<Rightarrow> do {
                         s1 \<leftarrow>
                           (if ref \<noteq> WalletVacia \<and> referer userTemp \<noteq> WalletVacia
                               \<and> up userTemp = WalletVacia
                            then do {
                              sa \<leftarrow> (if hand = 0 then conectar_izquierda s userTemp from ref
                                     else Some s);
                              (if hand = 1 then conectar_derecha L sa userTemp from ref
                               else Some sa)
                            } else Some s);
                         (s3, _) \<leftarrow> consultarUsuario_base L
                           (update_db s1 from
                              (if ref \<noteq> WalletVacia
                               then (\<lambda>u. (if up userTemp = wallet userTemp
                                          then u\<lparr>up := WalletVacia\<rparr> else u)\<lparr>referer := ref\<rparr>)
                               else (\<lambda>u. u)))
                           from True False;
                         Some (s3, False)
                       }
                     | None \<Rightarrow>
                         Some (if ref \<noteq> WalletVacia
                               then sin_esperar s (consultarUsuario_base L s ref True True)
                               else s, True));
                  (case findOne (db s3) from of
                     None \<Rightarrow> None
                   | Some _ \<Rightarrow> Some (s3, res))
                })))"

definition consultarUsuario ::
  "ledger \<Rightarrow> state \<Rightarrow> wallet \<Rightarrow> bool \<Rightarrow> bool \<Rightarrow> bool \<Rightarrow> (state \<times> respuesta) option" where
  "consultarUsuario L s from0 agregateBinario updateInfoBlockchain conectarUp =
     (let from = toLowerCase from0 in
      if from = ''0x0000000000000000000000000000000000000000'' then Some (s, Objeto_vacio)
      else do {
        (s1, userTemp) \<leftarrow> consultarUsuario_base L s from agregateBinario updateInfoBlockchain;
        if conectarUp then do {
          (s2, _) \<leftarrow> conectarUpline L s1 from;
          Some (s2, case findOne (db s2) from of None \<Rightarrow> Nulo | Some u \<Rightarrow> Documento u)
        } else Some (s1, userTemp)
      })"

subsection \<open>Aggregating the points\<close>

text \<open>The two lines that read a child: \<open>await consultarUsuario(child, false, true)\<close>, then
  \<open>findOne({wallet: child})\<close>.\<close>

definition leer_hijo :: "ledger \<Rightarrow> state \<Rightarrow> wallet \<Rightarrow> (state \<times> user option) option" where
  "leer_hijo L s hijo = do {
     (sa, _) \<leftarrow> consultarUsuario L s hijo False True False;
     Some (sa, findOne (db sa) hijo)
   }"

text \<open>\<open>newUser\<close>, the fields to set, is the function that sets them. The block for the
  left leg yields the state after the child was read and the left part of \<open>newUser\<close>.\<close>

definition rama_izquierda :: "ledger \<Rightarrow> state \<Rightarrow> user \<Rightarrow> (state \<times> (user \<Rightarrow> user)) option" where
  "rama_izquierda L s userTemp =
     (if left userTemp \<noteq> WalletVacia then do {
        (sa, uleft) \<leftarrow> leer_hijo L s (left userTemp);
        Some (sa,
          case uleft of
            None \<Rightarrow> (\<lambda>u. u)
          | Some uleft \<Rightarrow>
              (let puntosIz = (0 + invested uleft) * factorPuntos div 100
                                + lPuntos uleft + rPuntos uleft;
                   personasIz = 0 + 1 + lPersonas uleft + rPersonas uleft
               in (\<lambda>u. (if toNumber personasIz > toNumber (lPersonas userTemp)
                         then (\<lambda>v. v\<lparr>lPersonas := personasIz\<rparr>) else (\<lambda>v. v))
                        ((if toNumber puntosIz > toNumber (lPuntos userTemp)
                          then (\<lambda>v. v\<lparr>lPuntos := puntosIz\<rparr>) else (\<lambda>v. v)) u))))
      } else Some (s, \<lambda>u. u\<lparr>lPuntos := 0, lPersonas := 0\<rparr>))"

definition rama_derecha :: "ledger \<Rightarrow> state \<Rightarrow> user \<Rightarrow> (state \<times> (user \<Rightarrow> user)) option" where
  "rama_derecha L s userTemp =
     (if right userTemp \<noteq> WalletVacia then do {
        (sb, uright) \<leftarrow> leer_hijo L s (right userTemp);
        Some (sb,
          case uright of
            None \<Rightarrow> (\<lambda>u. u)
          | Some uright \<Rightarrow>
              (let puntosDe = (0 + invested uright) * factorPuntos div 100
                                + lPuntos uright + rPuntos uright;
                   personasDe = 0 + 1 + lPersonas uright + rPersonas uright
               in (\<lambda>u. (if toNumber personasDe > toNumber (rPersonas userTemp)
                         then (\<lambda>v. v\<lparr>rPersonas := personasDe\<rparr>) else (\<lambda>v. v))
                        ((if toNumber puntosDe > toNumber (rPuntos userTemp)
                          then (\<lambda>v. v\<lparr>rPuntos := puntosDe\<rparr>) else (\<lambda>v. v)) u))))
      } else Some (s, \<lambda>u. u\<lparr>rPuntos := 0, rPersonas := 0\<rparr>))"

text \<open>The last block, \<open>puntos activos\<close>.\<close>

definition puntos_activos :: "state \<Rightarrow> wallet \<Rightarrow> state option" where
  "puntos_activos s w =
     (case findOne (db s) w of
        None \<Rightarrow> None
      | Some userTemp \<Rightarrow>
          (let pL = lPuntos userTemp + lExtra userTemp - lReclamados userTemp;
               pR = rPuntos userTemp + rExtra userTemp - rReclamados userTemp
           in Some (update_db s w
                      (\<lambda>u. u\<lparr>puntosActivos := (if toNumber pL < toNumber pR then pL else pR)\<rparr>))))"

definition binariV2 :: "ledger \<Rightarrow> state \<Rightarrow> wallet \<Rightarrow> (state \<times> bool) option" where
  "binariV2 L s wallet0 =
     (let w = toLowerCase wallet0 in
      case findOne (db s) w of
        None \<Rightarrow> Some (sin_esperar s (consultarUsuario L s w True True True), True)
      | Some userTemp \<Rightarrow> do {
          (s1, newL) \<leftarrow> rama_izquierda L s userTemp;
          (s2, newR) \<leftarrow> rama_derecha L s1 userTemp;
          s4 \<leftarrow> puntos_activos (update_db s2 w (\<lambda>u. newR (newL u))) w;
          Some (s4, True)
        })"



definition mismos_puntos :: "user \<Rightarrow> user \<Rightarrow> bool" where
  "mismos_puntos u v =
     (wallet v = wallet u \<and> up v = up u \<and> left v = left u \<and> right v = right u \<and>
      lPuntos v = lPuntos u \<and> rPuntos v = rPuntos u \<and>
      lPersonas v = lPersonas u \<and> rPersonas v = rPersonas u \<and>
      lReclamados v = lReclamados u \<and> rReclamados v = rReclamados u \<and>
      lExtra v = lExtra u \<and> rExtra v = rExtra u \<and> puntosActivos v = puntosActivos u)"

text \<open>The last write of \<open>binariV2\<close> on a document: \<open>puntosActivos\<close> from its own fields.\<close>

definition activar :: "user \<Rightarrow> user" where
  "activar v = v\<lparr>puntosActivos :=
                   (if lPuntos v + lExtra v - lReclamados v < rPuntos v + rExtra v - rReclamados v
                    then lPuntos v + lExtra v - lReclamados v
                    else rPuntos v + rExtra v - rReclamados v)\<rparr>"

text \<open>What a refresh of an account depends on in the ledger: the amount it writes to
  \<open>invested\<close>, and whether the reads it makes are answered.\<close>

definition ledger_invested :: "ledger \<Rightarrow> wallet \<Rightarrow> int" where
  "ledger_invested L h =
     (if inv_registered (investor_o_defecto L h) then inv_invested (investor_o_defecto L h) else 0)"

definition ledger_responde :: "ledger \<Rightarrow> wallet \<Rightarrow> bool" where
  "ledger_responde L h =
     (inv_registered (investor_o_defecto L h) \<longrightarrow>
        addressToId L h \<noteq> None \<and> upline L h \<noteq> None \<and> verListaDepositos L h \<noteq> None)"

subsection \<open>Example accounts\<close>

definition cuenta_ejemplo :: user where
  "cuenta_ejemplo = (usuario_nuevo ''a'' 0)\<lparr>lPuntos := 800, rPuntos := 500\<rparr>"

definition estado_ejemplo :: state where
  "estado_ejemplo = \<lparr>db = [cuenta_ejemplo], binarioindexado = (\<lambda>_. None)\<rparr>"

definition ledger_ejemplo :: "envio \<Rightarrow> ledger" where
  "ledger_ejemplo e =
     \<lparr>investors = (\<lambda>_. None), upline = (\<lambda>_. None), addressToId = (\<lambda>_. None),
      verListaDepositos = (\<lambda>_. None), estimateGas = (\<lambda>_ _ _. Some 21000),
      send = (\<lambda>_ _ _ _. e)\<rparr>"

definition cuenta_liquidada :: user where
  "cuenta_liquidada = cuenta_ejemplo\<lparr>lReclamados := 500, rReclamados := 500\<rparr>"

definition estado_liquidado :: state where
  "estado_liquidado = \<lparr>db = [cuenta_liquidada], binarioindexado = [''a'' \<mapsto> cuenta_liquidada]\<rparr>"

definition padre :: user where
  "padre = (usuario_nuevo ''p'' 0)\<lparr>left := ''b'', right := ''c'', lPuntos := 100, rPuntos := 60\<rparr>"

definition hijo_b :: user where
  "hijo_b = (usuario_nuevo ''b'' 0)\<lparr>lPuntos := 30, rPuntos := 20, lPersonas := 1, rPersonas := 1\<rparr>"

definition hijo_c :: user where
  "hijo_c = (usuario_nuevo ''c'' 0)\<lparr>lPuntos := 5\<rparr>"

definition estado_red :: state where
  "estado_red = \<lparr>db = [padre, hijo_b, hijo_c], binarioindexado = (\<lambda>_. None)\<rparr>"

definition ledger_red :: ledger where
  "ledger_red =
     \<lparr>investors = (\<lambda>w. if w = ''b'' then Some \<lparr>inv_registered = True, inv_invested = 1000\<rparr>
                        else if w = ''c'' then Some \<lparr>inv_registered = True, inv_invested = 40\<rparr>
                        else None),
      upline = (\<lambda>w. if w = ''b'' then Some (''p'', 0) else if w = ''c'' then Some (''p'', 1) else None),
      addressToId = (\<lambda>w. if w = ''b'' then Some 2 else if w = ''c'' then Some 3 else None),
      verListaDepositos = (\<lambda>_. Some []), estimateGas = (\<lambda>_ _ _. Some 21000),
      send = (\<lambda>_ _ _ _. Enviado ''0xabc'')\<rparr>"

definition hijo_b_al_dia :: user where
  "hijo_b_al_dia = hijo_b\<lparr>registered := True, invested := 1000, referer := ''p'', idBlock := 2\<rparr>"

definition hijo_c_al_dia :: user where
  "hijo_c_al_dia = hijo_c\<lparr>registered := True, invested := 40, referer := ''p'', idBlock := 3\<rparr>"

definition estado_red_1 :: state where
  "estado_red_1 = \<lparr>db = [padre, hijo_b_al_dia, hijo_c], binarioindexado = (\<lambda>_. None)\<rparr>"

definition padre_agregado :: user where
  "padre_agregado = padre\<lparr>lPersonas := 3, lPuntos := 1050, rPersonas := 1,
                           puntosActivos := 60\<rparr>"

definition estado_red_2 :: state where
  "estado_red_2 = \<lparr>db = [padre_agregado, hijo_b_al_dia, hijo_c_al_dia],
                    binarioindexado = (\<lambda>_. None)\<rparr>"

definition cuenta_vaciada :: user where
  "cuenta_vaciada = cuenta_ejemplo\<lparr>lPuntos := 0, rPuntos := 0\<rparr>"

definition estado_vaciado :: state where
  "estado_vaciado = \<lparr>db = [cuenta_vaciada], binarioindexado = (\<lambda>_. None)\<rparr>"

definition cuenta_rota :: user where
  "cuenta_rota = cuenta_liquidada\<lparr>lPuntos := 0, rPuntos := 0, puntosActivos := - 500\<rparr>"

definition estado_roto :: state where
  "estado_roto = \<lparr>db = [cuenta_rota], binarioindexado = [''a'' \<mapsto> cuenta_liquidada]\<rparr>"

definition cuenta_r :: user where
  "cuenta_r = usuario_nuevo ''r'' 0"

definition cuenta_p5 :: user where
  "cuenta_p5 = (usuario_nuevo ''p5'' 0)\<lparr>idBlock := 5, right := ''c'', rPuntos := 700, rReclamados := 200\<rparr>"

definition cuenta_p9 :: user where
  "cuenta_p9 = (usuario_nuevo ''p9'' 0)\<lparr>idBlock := 9, right := ''c''\<rparr>"

definition cuenta_c :: user where
  "cuenta_c = (usuario_nuevo ''c'' 0)\<lparr>idBlock := 12, referer := ''r''\<rparr>"

definition estado_conflicto :: state where
  "estado_conflicto = \<lparr>db = [cuenta_r, cuenta_p5, cuenta_p9, cuenta_c], binarioindexado = (\<lambda>_. None)\<rparr>"

definition ledger_conflicto :: ledger where
  "ledger_conflicto =
     \<lparr>investors = (\<lambda>_. None), upline = (\<lambda>w. if w = ''c'' then Some (''r'', 1) else None),
      addressToId = (\<lambda>_. None), verListaDepositos = (\<lambda>_. None),
      estimateGas = (\<lambda>_ _ _. None), send = (\<lambda>_ _ _ _. Fallo [])\<rparr>"

definition estado_resuelto :: state where
  "estado_resuelto =
     \<lparr>db = [cuenta_r, cuenta_p5\<lparr>right := WalletVacia, rPuntos := 0\<rparr>, cuenta_p9,
            cuenta_c\<lparr>up := ''p5''\<rparr>],
      binarioindexado = [''c'' \<mapsto> cuenta_c\<lparr>up := ''p5''\<rparr>]\<rparr>"



section \<open>Properties\<close>

subsection \<open>The collection, strings and rounding\<close>

lemma dp0_of_int: "dp0 (of_int n) = n"
proof -
  have "\<lfloor>rat_of_int n + 1 / 2\<rfloor> = n" "\<lfloor>- rat_of_int n + 1 / 2\<rfloor> = - n"
    by linarith+
  then show ?thesis by (simp add: dp0_def)
qed

lemma dp0_entero_id [simp]: "dp0_entero n = n"
  unfolding dp0_entero_def by (rule dp0_of_int)


lemma findOne_updateOne:
  assumes "\<And>u. wallet (f u) = wallet u"
  shows "findOne (updateOne docs w f) w' = (if w' = w then map_option f (findOne docs w) else findOne docs w')"
  using assms unfolding findOne_def by (induction docs) auto








subsection \<open>The claimable amount and its settlement\<close>


lemma update_db_db: "db (update_db s w f) = updateOne (db s) w f"
  by (simp add: update_db_def)






lemma lower_a: "toLowerCase ''a'' = ''a''"
  by code_simp

lemma find_a: "findOne (db estado_ejemplo) ''a'' = Some cuenta_ejemplo"
  by (simp add: estado_ejemplo_def findOne_def cuenta_ejemplo_def usuario_nuevo_def)








subsection \<open>A refresh keeps the point fields\<close>

lemma mismos_refl: "mismos_puntos u u"
  by (simp add: mismos_puntos_def)

lemma mismos_trans: "mismos_puntos u v \<Longrightarrow> mismos_puntos v w \<Longrightarrow> mismos_puntos u w"
  by (simp add: mismos_puntos_def)

lemma findOne_save:
  "findOne (save docs n) x = (case findOne docs x of Some v \<Rightarrow> Some v
                               | None \<Rightarrow> if wallet n = x then Some n else None)"
  unfolding findOne_def save_def by (induction docs) auto

lemma actualizar_keeps:
  assumes "actualizarUsuario L s h = Some (s', b)" and "findOne (db s) x = Some v"
  shows "\<exists>v'. findOne (db s') x = Some v' \<and> mismos_puntos v v'"
  using assms unfolding actualizarUsuario_def
  by (auto simp: Let_def bind_eq_Some_conv update_db_db findOne_updateOne mismos_puntos_def
           split: option.splits if_splits)

lemma crear_keeps:
  assumes "crearUsuario L s h = Some (s', r)" and "findOne (db s) x = Some v"
  shows "\<exists>v'. findOne (db s') x = Some v' \<and> mismos_puntos v v'"
  using assms unfolding crearUsuario_def
  by (auto simp: Let_def bind_eq_Some_conv update_db_db findOne_updateOne findOne_save mismos_puntos_def
           split: option.splits if_splits prod.splits)

lemma base_steps:
  assumes "consultarUsuario_base L s h a b = Some (s', r)"
    and "toLowerCase h \<noteq> ''0x0000000000000000000000000000000000000000''"
  obtains s1 s2 where
    "if b then \<exists>x. actualizarUsuario L s (toLowerCase h) = Some (s1, x) else s1 = s"
    "case findOne (db s1) (toLowerCase h) of
       None \<Rightarrow> crearUsuario L s1 (toLowerCase h) = Some (s2, r)
     | Some u \<Rightarrow> s2 = s1 \<and> r = Documento u"
    "db s' = db s2"
proof -
  from assms obtain s1 s2 where
    1: "(if b then map_option fst (actualizarUsuario L s (toLowerCase h)) else Some s) = Some s1"
    and 2: "(case findOne (db s1) (toLowerCase h) of
              None \<Rightarrow> crearUsuario L s1 (toLowerCase h)
            | Some u \<Rightarrow> Some (s1, Documento u)) = Some (s2, r)"
    and 3: "db s' = db s2"
    unfolding consultarUsuario_base_def
    by (auto simp: Let_def bind_eq_Some_conv split: if_splits respuesta.splits)
  have a: "if b then \<exists>x. actualizarUsuario L s (toLowerCase h) = Some (s1, x) else s1 = s"
    using 1 by (auto split: if_splits)
  have c: "case findOne (db s1) (toLowerCase h) of
       None \<Rightarrow> crearUsuario L s1 (toLowerCase h) = Some (s2, r)
     | Some u \<Rightarrow> s2 = s1 \<and> r = Documento u"
    using 2 by (auto split: option.splits)
  from that[OF a c 3] show thesis .
qed

lemma base_keeps:
  assumes "consultarUsuario_base L s h a b = Some (s', r)" and "findOne (db s) x = Some v"
  shows "\<exists>v'. findOne (db s') x = Some v' \<and> mismos_puntos v v'"
proof (cases "toLowerCase h = ''0x0000000000000000000000000000000000000000''")
  case True
  then have "s' = s" using assms(1) unfolding consultarUsuario_base_def by (simp add: Let_def)
  then show ?thesis using assms(2) mismos_refl by auto
next
  case False
  from base_steps[OF assms(1) False] obtain s1 s2 where
    a: "if b then \<exists>x. actualizarUsuario L s (toLowerCase h) = Some (s1, x) else s1 = s"
    and c: "case findOne (db s1) (toLowerCase h) of
       None \<Rightarrow> crearUsuario L s1 (toLowerCase h) = Some (s2, r)
     | Some u \<Rightarrow> s2 = s1 \<and> r = Documento u"
    and d: "db s' = db s2" by blast
  from a assms(2) obtain v1 where v1: "findOne (db s1) x = Some v1" "mismos_puntos v v1"
    using actualizar_keeps mismos_refl by (cases b) (auto, blast)
  from c v1 obtain v2 where v2: "findOne (db s2) x = Some v2" "mismos_puntos v1 v2"
    using crear_keeps mismos_refl by (cases "findOne (db s1) (toLowerCase h)") (auto, blast)
  show ?thesis using v1 v2 d mismos_trans by auto
qed

lemma consultar_keeps:
  assumes "consultarUsuario L s h a b False = Some (s', r)" and "findOne (db s) x = Some v"
  shows "\<exists>v'. findOne (db s') x = Some v' \<and> mismos_puntos v v'"
proof (cases "toLowerCase h = ''0x0000000000000000000000000000000000000000''")
  case True
  then have "s' = s" using assms(1) unfolding consultarUsuario_def by (simp add: Let_def)
  then show ?thesis using assms(2) mismos_refl by auto
next
  case False
  then have "consultarUsuario_base L s (toLowerCase h) a b = Some (s', r)"
    using assms(1) unfolding consultarUsuario_def
    by (auto simp: Let_def bind_eq_Some_conv)
  from base_keeps[OF this assms(2)] show ?thesis .
qed

lemma leer_hijo_keeps:
  assumes "leer_hijo L s h = Some (s', c)" and "findOne (db s) x = Some v"
  shows "\<exists>v'. findOne (db s') x = Some v' \<and> mismos_puntos v v'"
  using assms consultar_keeps unfolding leer_hijo_def
  by (auto simp: bind_eq_Some_conv)

lemma rama_izquierda_keeps:
  assumes "rama_izquierda L s u = Some (s', f)" and "findOne (db s) x = Some v"
  shows "\<exists>v'. findOne (db s') x = Some v' \<and> mismos_puntos v v'"
  using assms leer_hijo_keeps mismos_refl unfolding rama_izquierda_def toNumber_def
  by (auto simp: bind_eq_Some_conv split: if_splits)

lemma rama_derecha_keeps:
  assumes "rama_derecha L s u = Some (s', f)" and "findOne (db s) x = Some v"
  shows "\<exists>v'. findOne (db s') x = Some v' \<and> mismos_puntos v v'"
  using assms leer_hijo_keeps mismos_refl unfolding rama_derecha_def toNumber_def
  by (auto simp: bind_eq_Some_conv split: if_splits)

subsection \<open>Aggregation, leg by leg\<close>

lemma rama_izquierda_newL:
  assumes "rama_izquierda L s u = Some (s1, newL)"
  shows "if left u = WalletVacia
         then s1 = s \<and> newL = (\<lambda>v. v\<lparr>lPuntos := 0, lPersonas := 0\<rparr>)
         else \<exists>c. leer_hijo L s (left u) = Some (s1, c) \<and>
                newL = (case c of
                          None \<Rightarrow> (\<lambda>v. v)
                        | Some c \<Rightarrow>
                            (\<lambda>v. v\<lparr>lPuntos := (if invested c * factorPuntos div 100 + lPuntos c + rPuntos c
                                                   > lPuntos u
                                                then invested c * factorPuntos div 100 + lPuntos c + rPuntos c
                                                else lPuntos v),
                                   lPersonas := (if 1 + lPersonas c + rPersonas c > lPersonas u
                                                 then 1 + lPersonas c + rPersonas c
                                                 else lPersonas v)\<rparr>))"
proof (cases "left u = WalletVacia")
  case True
  then show ?thesis using assms unfolding rama_izquierda_def toNumber_def by auto
next
  case False
  then obtain c where c: "leer_hijo L s (left u) = Some (s1, c)"
    and n: "newL = (case c of
                   None \<Rightarrow> (\<lambda>u. u)
                 | Some uleft \<Rightarrow>
                     (let puntosIz = (0 + invested uleft) * factorPuntos div 100
                                       + lPuntos uleft + rPuntos uleft;
                          personasIz = 0 + 1 + lPersonas uleft + rPersonas uleft
                      in (\<lambda>ua. (if personasIz > lPersonas u
                                then (\<lambda>v. v\<lparr>lPersonas := personasIz\<rparr>) else (\<lambda>v. v))
                               ((if puntosIz > lPuntos u
                                 then (\<lambda>v. v\<lparr>lPuntos := puntosIz\<rparr>) else (\<lambda>v. v)) ua))))"
    using assms unfolding rama_izquierda_def toNumber_def by (auto simp: bind_eq_Some_conv)
  have "newL = (case c of
                          None \<Rightarrow> (\<lambda>v. v)
                        | Some c \<Rightarrow>
                            (\<lambda>v. v\<lparr>lPuntos := (if invested c * factorPuntos div 100 + lPuntos c + rPuntos c
                                                   > lPuntos u
                                                then invested c * factorPuntos div 100 + lPuntos c + rPuntos c
                                                else lPuntos v),
                                   lPersonas := (if 1 + lPersonas c + rPersonas c > lPersonas u
                                                 then 1 + lPersonas c + rPersonas c
                                                 else lPersonas v)\<rparr>))"
    unfolding n by (cases c) (auto simp: Let_def fun_eq_iff)
  with c False show ?thesis by auto
qed

lemma rama_derecha_newR:
  assumes "rama_derecha L s u = Some (s1, newR)"
  shows "if right u = WalletVacia
         then s1 = s \<and> newR = (\<lambda>v. v\<lparr>rPuntos := 0, rPersonas := 0\<rparr>)
         else \<exists>c. leer_hijo L s (right u) = Some (s1, c) \<and>
                newR = (case c of
                          None \<Rightarrow> (\<lambda>v. v)
                        | Some c \<Rightarrow>
                            (\<lambda>v. v\<lparr>rPuntos := (if invested c * factorPuntos div 100 + lPuntos c + rPuntos c
                                                   > rPuntos u
                                                then invested c * factorPuntos div 100 + lPuntos c + rPuntos c
                                                else rPuntos v),
                                   rPersonas := (if 1 + lPersonas c + rPersonas c > rPersonas u
                                                 then 1 + lPersonas c + rPersonas c
                                                 else rPersonas v)\<rparr>))"
proof (cases "right u = WalletVacia")
  case True
  then show ?thesis using assms unfolding rama_derecha_def toNumber_def by auto
next
  case False
  then obtain c where c: "leer_hijo L s (right u) = Some (s1, c)"
    and n: "newR = (case c of
                   None \<Rightarrow> (\<lambda>u. u)
                 | Some uright \<Rightarrow>
                     (let puntosDe = (0 + invested uright) * factorPuntos div 100
                                       + lPuntos uright + rPuntos uright;
                          personasDe = 0 + 1 + lPersonas uright + rPersonas uright
                      in (\<lambda>ua. (if personasDe > rPersonas u
                                then (\<lambda>v. v\<lparr>rPersonas := personasDe\<rparr>) else (\<lambda>v. v))
                               ((if puntosDe > rPuntos u
                                 then (\<lambda>v. v\<lparr>rPuntos := puntosDe\<rparr>) else (\<lambda>v. v)) ua))))"
    using assms unfolding rama_derecha_def toNumber_def by (auto simp: bind_eq_Some_conv)
  have "newR = (case c of
                          None \<Rightarrow> (\<lambda>v. v)
                        | Some c \<Rightarrow>
                            (\<lambda>v. v\<lparr>rPuntos := (if invested c * factorPuntos div 100 + lPuntos c + rPuntos c
                                                   > rPuntos u
                                                then invested c * factorPuntos div 100 + lPuntos c + rPuntos c
                                                else rPuntos v),
                                   rPersonas := (if 1 + lPersonas c + rPersonas c > rPersonas u
                                                 then 1 + lPersonas c + rPersonas c
                                                 else rPersonas v)\<rparr>))"
    unfolding n by (cases c) (auto simp: Let_def fun_eq_iff)
  with c False show ?thesis by auto
qed

lemma rama_izquierda_campos:
  assumes "rama_izquierda L s u = Some (s1, newL)"
  shows "wallet (newL v) = wallet v \<and> rPuntos (newL v) = rPuntos v \<and> rPersonas (newL v) = rPersonas v
         \<and> lReclamados (newL v) = lReclamados v \<and> rReclamados (newL v) = rReclamados v
         \<and> lExtra (newL v) = lExtra v \<and> rExtra (newL v) = rExtra v
         \<and> left (newL v) = left v \<and> right (newL v) = right v"
  using rama_izquierda_newL[OF assms] by (auto split: if_splits option.splits)

lemma rama_derecha_campos:
  assumes "rama_derecha L s u = Some (s1, newR)"
  shows "wallet (newR v) = wallet v \<and> lPuntos (newR v) = lPuntos v \<and> lPersonas (newR v) = lPersonas v
         \<and> lReclamados (newR v) = lReclamados v \<and> rReclamados (newR v) = rReclamados v
         \<and> lExtra (newR v) = lExtra v \<and> rExtra (newR v) = rExtra v
         \<and> left (newR v) = left v \<and> right (newR v) = right v"
  using rama_derecha_newR[OF assms] by (auto split: if_splits option.splits)

lemma activar_puntosActivos: "v\<lparr>puntosActivos := puntosActivos (activar v)\<rparr> = activar v"
  by (simp add: activar_def)

lemma binariV2_steps:
  assumes find: "findOne (db s) (toLowerCase w0) = Some u"
    and run: "binariV2 L s w0 = Some (s', b)"
  obtains s1 newL s2 newR u2 where
    "rama_izquierda L s u = Some (s1, newL)"
    "rama_derecha L s1 u = Some (s2, newR)"
    "findOne (db s2) (toLowerCase w0) = Some u2" "mismos_puntos u u2"
    "db s' = updateOne (updateOne (db s2) (toLowerCase w0) (\<lambda>v. newR (newL v))) (toLowerCase w0)
               (\<lambda>v. v\<lparr>puntosActivos := puntosActivos (activar (newR (newL u2)))\<rparr>)"
    "findOne (db s') (toLowerCase w0) = Some (activar (newR (newL u2)))"
proof -
  let ?w = "toLowerCase w0"
  from find run obtain s1 newL s2 newR s4 where
    l: "rama_izquierda L s u = Some (s1, newL)"
    and r: "rama_derecha L s1 u = Some (s2, newR)"
    and p: "puntos_activos (update_db s2 ?w (\<lambda>v. newR (newL v))) ?w = Some s4"
    and e: "s' = s4"
    unfolding binariV2_def by (auto simp: Let_def bind_eq_Some_conv)
  from rama_izquierda_keeps[OF l find] obtain u1 where
    u1: "findOne (db s1) ?w = Some u1" "mismos_puntos u u1" by blast
  from rama_derecha_keeps[OF r u1(1)] obtain u2 where
    u2: "findOne (db s2) ?w = Some u2" "mismos_puntos u1 u2" by blast
  have m: "mismos_puntos u u2" using u1(2) u2(2) by (rule mismos_trans)
  note cl = rama_izquierda_campos[OF l] and cr = rama_derecha_campos[OF r]
  let ?d3 = "updateOne (db s2) ?w (\<lambda>v. newR (newL v))"
  have f3: "findOne ?d3 ?w = Some (newR (newL u2))"
    using u2(1) cl cr by (simp add: findOne_updateOne)
  have "db s4 = updateOne ?d3 ?w (\<lambda>v. v\<lparr>puntosActivos := puntosActivos (activar (newR (newL u2)))\<rparr>)"
    using p f3 unfolding puntos_activos_def toNumber_def activar_def
    by (auto simp: Let_def update_db_db)
  then have d: "db s' = updateOne ?d3 ?w
                  (\<lambda>v. v\<lparr>puntosActivos := puntosActivos (activar (newR (newL u2)))\<rparr>)"
    using e by simp
  have f: "findOne (db s') ?w = Some (activar (newR (newL u2)))"
    unfolding d using f3 by (simp add: findOne_updateOne activar_puntosActivos)
  from that[OF l r u2(1) m d f] show thesis .
qed

lemma rama_izquierda_leg:
  assumes "rama_izquierda L s u = Some (s1, newL)"
  shows "left u = WalletVacia \<Longrightarrow> lPuntos (newL v) = 0 \<and> lPersonas (newL v) = 0"
    and "left u \<noteq> WalletVacia \<Longrightarrow> leer_hijo L s (left u) = Some (sa, Some c) \<Longrightarrow>
           lPuntos (newL v) = (if invested c * factorPuntos div 100 + lPuntos c + rPuntos c > lPuntos u
                               then invested c * factorPuntos div 100 + lPuntos c + rPuntos c
                               else lPuntos v) \<and>
           lPersonas (newL v) = (if 1 + lPersonas c + rPersonas c > lPersonas u
                                 then 1 + lPersonas c + rPersonas c else lPersonas v)"
proof -
  note n = rama_izquierda_newL[OF assms]
  show "left u = WalletVacia \<Longrightarrow> lPuntos (newL v) = 0 \<and> lPersonas (newL v) = 0"
    using n by simp
  show "lPuntos (newL v) = (if invested c * factorPuntos div 100 + lPuntos c + rPuntos c > lPuntos u
                               then invested c * factorPuntos div 100 + lPuntos c + rPuntos c
                               else lPuntos v) \<and>
           lPersonas (newL v) = (if 1 + lPersonas c + rPersonas c > lPersonas u
                                 then 1 + lPersonas c + rPersonas c else lPersonas v)"
    if a: "left u \<noteq> WalletVacia" and b: "leer_hijo L s (left u) = Some (sa, Some c)"
  proof -
    from n a b have "newL = (\<lambda>v. v\<lparr>lPuntos := (if invested c * factorPuntos div 100 + lPuntos c + rPuntos c
                                                   > lPuntos u
                                                then invested c * factorPuntos div 100 + lPuntos c + rPuntos c
                                                else lPuntos v),
                                   lPersonas := (if 1 + lPersonas c + rPersonas c > lPersonas u
                                                 then 1 + lPersonas c + rPersonas c
                                                 else lPersonas v)\<rparr>)"
      by auto
    then show ?thesis by simp
  qed
qed

lemma rama_derecha_leg:
  assumes "rama_derecha L s u = Some (s1, newR)"
  shows "right u = WalletVacia \<Longrightarrow> rPuntos (newR v) = 0 \<and> rPersonas (newR v) = 0"
    and "right u \<noteq> WalletVacia \<Longrightarrow> leer_hijo L s (right u) = Some (sa, Some c) \<Longrightarrow>
           rPuntos (newR v) = (if invested c * factorPuntos div 100 + lPuntos c + rPuntos c > rPuntos u
                               then invested c * factorPuntos div 100 + lPuntos c + rPuntos c
                               else rPuntos v) \<and>
           rPersonas (newR v) = (if 1 + lPersonas c + rPersonas c > rPersonas u
                                 then 1 + lPersonas c + rPersonas c else rPersonas v)"
proof -
  note n = rama_derecha_newR[OF assms]
  show "right u = WalletVacia \<Longrightarrow> rPuntos (newR v) = 0 \<and> rPersonas (newR v) = 0"
    using n by simp
  show "rPuntos (newR v) = (if invested c * factorPuntos div 100 + lPuntos c + rPuntos c > rPuntos u
                               then invested c * factorPuntos div 100 + lPuntos c + rPuntos c
                               else rPuntos v) \<and>
           rPersonas (newR v) = (if 1 + lPersonas c + rPersonas c > rPersonas u
                                 then 1 + lPersonas c + rPersonas c else rPersonas v)"
    if a: "right u \<noteq> WalletVacia" and b: "leer_hijo L s (right u) = Some (sa, Some c)"
  proof -
    from n a b have "newR = (\<lambda>v. v\<lparr>rPuntos := (if invested c * factorPuntos div 100 + lPuntos c + rPuntos c
                                                   > rPuntos u
                                                then invested c * factorPuntos div 100 + lPuntos c + rPuntos c
                                                else rPuntos v),
                                   rPersonas := (if 1 + lPersonas c + rPersonas c > rPersonas u
                                                 then 1 + lPersonas c + rPersonas c
                                                 else rPersonas v)\<rparr>)"
      by auto
    then show ?thesis by simp
  qed
qed

lemma activar_campos:
  "lPuntos (activar v) = lPuntos v" "rPuntos (activar v) = rPuntos v"
  "lPersonas (activar v) = lPersonas v" "rPersonas (activar v) = rPersonas v"
  "lReclamados (activar v) = lReclamados v" "rReclamados (activar v) = rReclamados v"
  "lExtra (activar v) = lExtra v" "rExtra (activar v) = rExtra v"
  "wallet (activar v) = wallet v" "left (activar v) = left v" "right (activar v) = right v"
  by (simp_all add: activar_def)

text \<open>
  Claim C4, as the code has it. For an account whose left (respectively right) child slot
  is empty, \<open>binariV2\<close> sets that leg's \<open>lPuntos\<close> and \<open>lPersonas\<close> (\<open>rPuntos\<close> and
  \<open>rPersonas\<close>) to 0: the leg does not keep its last total.
\<close>

theorem aggregate_empty_slot_resets:
  assumes find: "findOne (db s) (toLowerCase w0) = Some u"
    and run: "binariV2 L s w0 = Some (s', b)"
  shows "\<exists>u'. findOne (db s') (toLowerCase w0) = Some u' \<and>
           (left u = WalletVacia \<longrightarrow> lPuntos u' = 0 \<and> lPersonas u' = 0) \<and>
           (right u = WalletVacia \<longrightarrow> rPuntos u' = 0 \<and> rPersonas u' = 0)"
proof (rule binariV2_steps[OF find run])
  fix s1 newL s2 newR u2
  assume l: "rama_izquierda L s u = Some (s1, newL)"
    and r: "rama_derecha L s1 u = Some (s2, newR)"
    and f: "findOne (db s') (toLowerCase w0) = Some (activar (newR (newL u2)))"
  have a: "lPuntos (activar (newR (newL u2))) = 0 \<and> lPersonas (activar (newR (newL u2))) = 0"
    if "left u = WalletVacia"
    using rama_izquierda_leg(1)[OF l that, of u2] rama_derecha_campos[OF r, of "newL u2"]
    by (simp add: activar_campos)
  have b: "rPuntos (activar (newR (newL u2))) = 0 \<and> rPersonas (activar (newR (newL u2))) = 0"
    if "right u = WalletVacia"
    using rama_derecha_leg(1)[OF r that, of "newL u2"]
    by (simp add: activar_campos)
  show ?thesis
    by (rule exI[of _ "activar (newR (newL u2))"]) (simp add: f a b)
qed


lemmas red_defs = padre_def hijo_b_def hijo_c_def estado_red_def ledger_red_def hijo_b_al_dia_def
  hijo_c_al_dia_def estado_red_1_def padre_agregado_def estado_red_2_def usuario_nuevo_def

lemma lower_red: "toLowerCase ''p'' = ''p''" "toLowerCase ''b'' = ''b''" "toLowerCase ''c'' = ''c''"
  by code_simp+



lemma binariV2_red: "binariV2 ledger_red estado_red ''p'' = Some (estado_red_2, True)"
  by (simp add: binariV2_def rama_izquierda_def toNumber_def rama_derecha_def toNumber_def puntos_activos_def toNumber_def
        leer_hijo_def consultarUsuario_def consultarUsuario_base_def actualizarUsuario_def
        investor_o_defecto_def lower_red red_defs findOne_def update_db_def Let_def
        WalletVacia_def factorPuntos_def)


lemmas ejemplo_defs = cuenta_ejemplo_def estado_ejemplo_def ledger_ejemplo_def cuenta_liquidada_def
  estado_liquidado_def cuenta_vaciada_def estado_vaciado_def cuenta_rota_def estado_roto_def
  usuario_nuevo_def

lemma binariV2_ejemplo:
  "binariV2 (ledger_ejemplo (Fallo [])) estado_ejemplo ''a'' = Some (estado_vaciado, True)"
  by (simp add: binariV2_def rama_izquierda_def toNumber_def rama_derecha_def toNumber_def puntos_activos_def toNumber_def
        lower_a ejemplo_defs findOne_def update_db_def Let_def WalletVacia_def)


text \<open>
  An account with 800 left and 500 right points and no children: both legs are at 0 after
  \<open>binariV2\<close>.
\<close>

theorem aggregate_empty_slot_resets_witness:
  "findOne (db estado_ejemplo) (toLowerCase ''a'') = Some cuenta_ejemplo \<and>
   binariV2 (ledger_ejemplo (Fallo [])) estado_ejemplo ''a'' = Some (estado_vaciado, True) \<and>
   left cuenta_ejemplo = WalletVacia \<and> right cuenta_ejemplo = WalletVacia \<and>
   (\<exists>u'. findOne (db estado_vaciado) ''a'' = Some u' \<and>
         lPuntos u' = 0 \<and> lPersonas u' = 0 \<and> rPuntos u' = 0 \<and> rPersonas u' = 0)"
proof -
  have f: "findOne (db estado_ejemplo) (toLowerCase ''a'') = Some cuenta_ejemplo"
    by (simp add: lower_a find_a)
  have e: "left cuenta_ejemplo = WalletVacia" "right cuenta_ejemplo = WalletVacia"
    by (simp_all add: ejemplo_defs)
  show ?thesis
    using aggregate_empty_slot_resets [OF f binariV2_ejemplo] f binariV2_ejemplo e
    by (simp add: lower_a)
qed

text \<open>
  Claim C4 as stated fails on that account: its left slot is empty, its left total is 800
  before \<open>binariV2\<close> and 0 after.
\<close>

theorem aggregate_keeps_watermark_counterexample:
  "findOne (db estado_ejemplo) ''a'' = Some cuenta_ejemplo \<and>
   left cuenta_ejemplo = WalletVacia \<and>
   binariV2 (ledger_ejemplo (Fallo [])) estado_ejemplo ''a'' = Some (estado_vaciado, True) \<and>
   findOne (db estado_vaciado) ''a'' = Some cuenta_vaciada \<and>
   lPuntos cuenta_ejemplo = 800 \<and> lPuntos cuenta_vaciada = 0"
  using binariV2_ejemplo by (simp add: ejemplo_defs findOne_def)

subsection \<open>The zero address\<close>

lemma lower_zero:
  "toLowerCase ''0x0000000000000000000000000000000000000000''
     = ''0x0000000000000000000000000000000000000000''"
  by code_simp

text \<open>
  Claim C10. \<open>consultarUsuario\<close> on the zero address returns the empty object and leaves the
  state, the collection and the in-memory index, as it was, whatever its flags.
\<close>

theorem consultarUsuario_zero_address:
  "consultarUsuario L s ''0x0000000000000000000000000000000000000000''
       agregateBinario updateInfoBlockchain conectarUp
     = Some (s, Objeto_vacio)"
  by (simp add: consultarUsuario_def lower_zero)

subsection \<open>A conflicting placement\<close>

lemmas conflicto_defs = cuenta_r_def cuenta_p5_def cuenta_p9_def cuenta_c_def estado_conflicto_def
  ledger_conflicto_def estado_resuelto_def usuario_nuevo_def

lemma lower_conflicto: "toLowerCase ''c'' = ''c''" "toLowerCase ''r'' = ''r''"
  by code_simp+

lemma ubication_conflicto: "find_right (db estado_conflicto) ''c'' = [cuenta_p5, cuenta_p9]"
  by (simp add: find_right_def conflicto_defs WalletVacia_def)

lemma upt_2: "[0..<2] = [0, Suc 0]"
  by code_simp

lemma conectar_derecha_conflicto:
  "conectar_derecha ledger_conflicto estado_conflicto cuenta_c ''c'' ''r''
     = Some (estado_conflicto\<lparr>db := [cuenta_r, cuenta_p5\<lparr>right := WalletVacia, rPuntos := 0\<rparr>,
                                       cuenta_p9, cuenta_c\<lparr>up := ''p5''\<rparr>]\<rparr>)"
  unfolding conectar_derecha_def ubication_conflicto
  by (simp add: Let_def upt_2 update_db_def find_left_def conflicto_defs WalletVacia_def)

lemma conectarUpline_conflicto:
  "conectarUpline ledger_conflicto estado_conflicto ''c'' = Some (estado_resuelto, False)"
proof -
  have u: "upline ledger_conflicto ''c'' = Some (''r'', 1)"
    by (simp add: ledger_conflicto_def)
  have c: "findOne (db estado_conflicto) ''c'' = Some cuenta_c"
    by (simp add: findOne_def conflicto_defs)
  have r: "findOne (db estado_conflicto) ''r'' = Some cuenta_r"
    by (simp add: findOne_def conflicto_defs)
  have k: "referer cuenta_c = ''r''" "up cuenta_c = WalletVacia" "wallet cuenta_c = ''c''"
    by (simp_all add: conflicto_defs)
  have n: "''r'' \<noteq> WalletVacia" "''c'' \<noteq> WalletVacia"
    by (simp_all add: WalletVacia_def)
  show ?thesis
    unfolding conectarUpline_def
    apply (simp add: Let_def lower_conflicto u c r k n conectar_derecha_conflicto)
    apply (simp add: consultarUsuario_base_def update_db_def findOne_def conflicto_defs
             lower_conflicto WalletVacia_def Let_def)
    done
qed

text \<open>
  Claim C3 against the code. Two documents, \<open>p5\<close> (idBlock 5) and \<open>p9\<close> (idBlock 9), both hold
  \<open>c\<close> as their right child. \<open>conectarUpline\<close> picks \<open>p5\<close>, the lower idBlock, as the winner and
  sets \<open>c.up\<close> to it, but the loop over the others clears the winner's own slot: \<open>p5\<close> loses
  \<open>c\<close> and \<open>p9\<close> keeps it.
\<close>

theorem conflict_detaches_winner:
  "find_right (db estado_conflicto) ''c'' = [cuenta_p5, cuenta_p9] \<and>
   idBlock cuenta_p5 = 5 \<and> idBlock cuenta_p9 = 9 \<and>
   conectarUpline ledger_conflicto estado_conflicto ''c'' = Some (estado_resuelto, False) \<and>
   findOne (db estado_resuelto) ''c'' = Some (cuenta_c\<lparr>up := ''p5''\<rparr>) \<and>
   findOne (db estado_resuelto) ''p5'' = Some (cuenta_p5\<lparr>right := WalletVacia, rPuntos := 0\<rparr>) \<and>
   findOne (db estado_resuelto) ''p9'' = Some cuenta_p9 \<and> right cuenta_p9 = ''c''"
  using conectarUpline_conflicto ubication_conflicto by (simp add: findOne_def conflicto_defs)

subsection \<open>Claimed points against the totals\<close>




















subsection \<open>Aggregating twice\<close>

lemma actualizar_found:
  assumes "findOne (db t) (toLowerCase h) = Some a"
  shows "if ledger_responde L (toLowerCase h)
         then \<exists>ty c. actualizarUsuario L t h = Some (ty, True) \<and>
                findOne (db ty) (toLowerCase h) = Some c \<and> mismos_puntos a c \<and>
                invested c = ledger_invested L (toLowerCase h) \<and>
                binarioindexado ty = binarioindexado t
         else actualizarUsuario L t h = None"
proof (cases "inv_registered (investor_o_defecto L (toLowerCase h))")
  case False
  then show ?thesis
    using assms unfolding actualizarUsuario_def ledger_responde_def ledger_invested_def
    by (simp add: Let_def update_db_def findOne_updateOne mismos_puntos_def)
next
  case True
  show ?thesis
  proof (cases "ledger_responde L (toLowerCase h)")
    case False
    then show ?thesis
      using assms True unfolding actualizarUsuario_def ledger_responde_def
      by (cases "addressToId L (toLowerCase h)"; cases "upline L (toLowerCase h)";
          cases "verListaDepositos L (toLowerCase h)") (auto simp: Let_def)
  next
    case r: True
    then obtain i c d where "addressToId L (toLowerCase h) = Some i"
      "upline L (toLowerCase h) = Some c" "verListaDepositos L (toLowerCase h) = Some d"
      using True unfolding ledger_responde_def by auto
    then show ?thesis
      using assms True r unfolding actualizarUsuario_def ledger_invested_def
      by (simp add: Let_def update_db_def findOne_updateOne mismos_puntos_def)
  qed
qed

lemma leer_hijo_found:
  assumes f: "findOne (db t) h = Some a" and lo: "toLowerCase h = h" and nz: "h \<noteq> WalletVacia"
  shows "if ledger_responde L h
         then \<exists>t1 c. leer_hijo L t h = Some (t1, Some c) \<and> mismos_puntos a c \<and>
                invested c = ledger_invested L h
         else leer_hijo L t h = None"
proof -
  have z: "h \<noteq> ''0x0000000000000000000000000000000000000000''"
    using nz by (simp add: WalletVacia_def)
  note a = actualizar_found[of t h a L, unfolded lo, OF f]
  show ?thesis
  proof (cases "ledger_responde L h")
    case False
    then have "actualizarUsuario L t h = None" using a by simp
    then show ?thesis
      using False z unfolding leer_hijo_def consultarUsuario_def consultarUsuario_base_def
      by (simp add: Let_def lo)
  next
    case True
    then obtain ty c where y: "actualizarUsuario L t h = Some (ty, True)"
      and c: "findOne (db ty) h = Some c" "mismos_puntos a c" "invested c = ledger_invested L h"
      using a by auto
    have "leer_hijo L t h = Some (ty, Some c)"
      using y c(1) z unfolding leer_hijo_def consultarUsuario_def consultarUsuario_base_def
      by (simp add: Let_def lo)
    then show ?thesis using True c by auto
  qed
qed

lemma leer_hijo_snd: "leer_hijo L s h = Some (s1, c) \<Longrightarrow> c = findOne (db s1) h"
  unfolding leer_hijo_def by (auto simp: bind_eq_Some_conv)

lemma rama_izquierda_of_leer:
  assumes "left u \<noteq> WalletVacia" and "leer_hijo L t (left u) = Some (t1, c)"
  shows "\<exists>newL. rama_izquierda L t u = Some (t1, newL)"
  using assms unfolding rama_izquierda_def toNumber_def by simp

lemma rama_derecha_of_leer:
  assumes "right u \<noteq> WalletVacia" and "leer_hijo L t (right u) = Some (t1, c)"
  shows "\<exists>newR. rama_derecha L t u = Some (t1, newR)"
  using assms unfolding rama_derecha_def toNumber_def by simp

lemma left_again:
  assumes l1: "rama_izquierda L s u = Some (s1, newL)"
    and lo: "left u \<noteq> WalletVacia \<Longrightarrow> toLowerCase (left u) = left u"
    and ex: "left u \<noteq> WalletVacia \<Longrightarrow> \<exists>a. findOne (db s) (left u) = Some a"
    and t: "\<And>c. left u \<noteq> WalletVacia \<Longrightarrow> findOne (db s1) (left u) = Some c \<Longrightarrow>
              \<exists>a. findOne (db t) (left u) = Some a \<and> mismos_puntos c a"
    and lu: "left u' = left u"
    and pu: "lPuntos u' = lPuntos (newL v0)" "lPersonas u' = lPersonas (newL v0)"
            "lPuntos v0 = lPuntos u" "lPersonas v0 = lPersonas u"
  shows "\<exists>t1 newL'. rama_izquierda L t u' = Some (t1, newL') \<and>
           (\<forall>v. lPuntos v = lPuntos u' \<and> lPersonas v = lPersonas u' \<longrightarrow>
                lPuntos (newL' v) = lPuntos v \<and> lPersonas (newL' v) = lPersonas v)"
proof (cases "left u = WalletVacia")
  case True
  have z: "lPuntos u' = 0" "lPersonas u' = 0"
    using rama_izquierda_leg(1)[OF l1 True, of v0] pu by simp_all
  have "rama_izquierda L t u' = Some (t, \<lambda>v. v\<lparr>lPuntos := 0, lPersonas := 0\<rparr>)"
    using True lu unfolding rama_izquierda_def toNumber_def by simp
  then show ?thesis using z by simp
next
  case False
  let ?h = "left u"
  from ex[OF False] obtain a0 where a0: "findOne (db s) ?h = Some a0" by blast
  from rama_izquierda_newL[OF l1] False obtain cx where
    r1: "leer_hijo L s ?h = Some (s1, cx)" by auto
  note lf = leer_hijo_found[OF a0 lo[OF False] False, of L]
  have resp: "ledger_responde L ?h"
    using lf r1 by (cases "ledger_responde L ?h") auto
  with lf r1 obtain c1 where c1: "cx = Some c1" "invested c1 = ledger_invested L ?h"
    by auto
  have "findOne (db s1) ?h = Some c1" using leer_hijo_snd[OF r1] c1(1) by simp
  from t[OF False this] obtain a where a: "findOne (db t) ?h = Some a" "mismos_puntos c1 a"
    by blast
  from leer_hijo_found[OF a(1) lo[OF False] False, of L] resp
  obtain t1 c2 where r2: "leer_hijo L t ?h = Some (t1, Some c2)"
    and c2: "mismos_puntos a c2" "invested c2 = ledger_invested L ?h" by auto
  have e: "invested c2 = invested c1" "lPuntos c2 = lPuntos c1" "rPuntos c2 = rPuntos c1"
          "lPersonas c2 = lPersonas c1" "rPersonas c2 = rPersonas c1"
    using c1(2) c2 a(2) by (simp_all add: mismos_puntos_def)
  have n': "left u' \<noteq> WalletVacia" using False lu by simp
  from rama_izquierda_of_leer[OF n' r2[folded lu]] obtain newL' where
    l2: "rama_izquierda L t u' = Some (t1, newL')" by blast
  note g1 = rama_izquierda_leg(2)[OF l1 False r1[unfolded c1(1)], of v0]
  note g2 = rama_izquierda_leg(2)[OF l2 n' r2[folded lu]]
  have "lPuntos (newL' v) = lPuntos v \<and> lPersonas (newL' v) = lPersonas v" for v
    using g1 g2[of v] pu e by (simp split: if_splits)
  with l2 show ?thesis by blast
qed

lemma right_again:
  assumes l1: "rama_derecha L s u = Some (s1, newR)"
    and lo: "right u \<noteq> WalletVacia \<Longrightarrow> toLowerCase (right u) = right u"
    and ex: "right u \<noteq> WalletVacia \<Longrightarrow> \<exists>a. findOne (db s) (right u) = Some a"
    and t: "\<And>c. right u \<noteq> WalletVacia \<Longrightarrow> findOne (db s1) (right u) = Some c \<Longrightarrow>
              \<exists>a. findOne (db t) (right u) = Some a \<and> mismos_puntos c a"
    and lu: "right u' = right u"
    and pu: "rPuntos u' = rPuntos (newR v0)" "rPersonas u' = rPersonas (newR v0)"
            "rPuntos v0 = rPuntos u" "rPersonas v0 = rPersonas u"
  shows "\<exists>t1 newR'. rama_derecha L t u' = Some (t1, newR') \<and>
           (\<forall>v. rPuntos v = rPuntos u' \<and> rPersonas v = rPersonas u' \<longrightarrow>
                rPuntos (newR' v) = rPuntos v \<and> rPersonas (newR' v) = rPersonas v)"
proof (cases "right u = WalletVacia")
  case True
  have z: "rPuntos u' = 0" "rPersonas u' = 0"
    using rama_derecha_leg(1)[OF l1 True, of v0] pu by simp_all
  have "rama_derecha L t u' = Some (t, \<lambda>v. v\<lparr>rPuntos := 0, rPersonas := 0\<rparr>)"
    using True lu unfolding rama_derecha_def toNumber_def by simp
  then show ?thesis using z by simp
next
  case False
  let ?h = "right u"
  from ex[OF False] obtain a0 where a0: "findOne (db s) ?h = Some a0" by blast
  from rama_derecha_newR[OF l1] False obtain cx where
    r1: "leer_hijo L s ?h = Some (s1, cx)" by auto
  note lf = leer_hijo_found[OF a0 lo[OF False] False, of L]
  have resp: "ledger_responde L ?h"
    using lf r1 by (cases "ledger_responde L ?h") auto
  with lf r1 obtain c1 where c1: "cx = Some c1" "invested c1 = ledger_invested L ?h"
    by auto
  have "findOne (db s1) ?h = Some c1" using leer_hijo_snd[OF r1] c1(1) by simp
  from t[OF False this] obtain a where a: "findOne (db t) ?h = Some a" "mismos_puntos c1 a"
    by blast
  from leer_hijo_found[OF a(1) lo[OF False] False, of L] resp
  obtain t1 c2 where r2: "leer_hijo L t ?h = Some (t1, Some c2)"
    and c2: "mismos_puntos a c2" "invested c2 = ledger_invested L ?h" by auto
  have e: "invested c2 = invested c1" "lPuntos c2 = lPuntos c1" "rPuntos c2 = rPuntos c1"
          "lPersonas c2 = lPersonas c1" "rPersonas c2 = rPersonas c1"
    using c1(2) c2 a(2) by (simp_all add: mismos_puntos_def)
  have n': "right u' \<noteq> WalletVacia" using False lu by simp
  from rama_derecha_of_leer[OF n' r2[folded lu]] obtain newR' where
    l2: "rama_derecha L t u' = Some (t1, newR')" by blast
  note g1 = rama_derecha_leg(2)[OF l1 False r1[unfolded c1(1)], of v0]
  note g2 = rama_derecha_leg(2)[OF l2 n' r2[folded lu]]
  have "rPuntos (newR' v) = rPuntos v \<and> rPersonas (newR' v) = rPersonas v" for v
    using g1 g2[of v] pu e by (simp split: if_splits)
  with l2 show ?thesis by blast
qed

lemma binariV2_True: "binariV2 L s w0 = Some (s', b) \<Longrightarrow> b"
  unfolding binariV2_def
  by (auto simp: Let_def bind_eq_Some_conv split: option.splits)

text \<open>
  Claim C6. In a tree, where the children of the account are other accounts that have a
  document (under their lower-case wallet), a second \<open>binariV2\<close> right after the first, against
  the same ledger, returns and leaves the account's totals, person counts and active points
  as the first run left them.
\<close>

theorem aggregate_idempotent:
  assumes find: "findOne (db s) (toLowerCase w0) = Some u"
    and run: "binariV2 L s w0 = Some (s', b)"
    and hl: "left u = WalletVacia \<or>
             (left u \<noteq> toLowerCase w0 \<and> toLowerCase (left u) = left u \<and>
              findOne (db s) (left u) \<noteq> None)"
    and hr: "right u = WalletVacia \<or>
             (right u \<noteq> toLowerCase w0 \<and> toLowerCase (right u) = right u \<and>
              findOne (db s) (right u) \<noteq> None)"
  shows "\<exists>s'' u' u''. binariV2 L s' w0 = Some (s'', b) \<and>
           findOne (db s') (toLowerCase w0) = Some u' \<and>
           findOne (db s'') (toLowerCase w0) = Some u'' \<and>
           lPuntos u'' = lPuntos u' \<and> rPuntos u'' = rPuntos u' \<and>
           lPersonas u'' = lPersonas u' \<and> rPersonas u'' = rPersonas u' \<and>
           puntosActivos u'' = puntosActivos u'"
proof (rule binariV2_steps[OF find run])
  fix s1 newL s2 newR u2
  let ?w = "toLowerCase w0"
  assume l1: "rama_izquierda L s u = Some (s1, newL)"
    and r1: "rama_derecha L s1 u = Some (s2, newR)"
    and f2: "findOne (db s2) ?w = Some u2"
    and m: "mismos_puntos u u2"
    and d: "db s' = updateOne (updateOne (db s2) ?w (\<lambda>v. newR (newL v))) ?w
               (\<lambda>v. v\<lparr>puntosActivos := puntosActivos (activar (newR (newL u2)))\<rparr>)"
    and f': "findOne (db s') ?w = Some (activar (newR (newL u2)))"
  let ?x = "newR (newL u2)"
  let ?u' = "activar ?x"
  note cl = rama_izquierda_campos[OF l1] and cr = rama_derecha_campos[OF r1]
  have bt: "b = True" using binariV2_True[OF run] by simp
  have same: "findOne (db s') x = findOne (db s2) x" if "x \<noteq> ?w" for x
    unfolding d using that cl cr by (simp add: findOne_updateOne)
  have e2: "lPuntos u2 = lPuntos u" "lPersonas u2 = lPersonas u"
           "rPuntos u2 = rPuntos u" "rPersonas u2 = rPersonas u"
           "left u2 = left u" "right u2 = right u"
    using m by (simp_all add: mismos_puntos_def)
  \<comment> \<open>the left leg, read again in \<open>s'\<close>\<close>
  have lol: "toLowerCase (left u) = left u" if "left u \<noteq> WalletVacia"
    using hl that by simp
  have exl: "\<exists>a. findOne (db s) (left u) = Some a" if "left u \<noteq> WalletVacia"
    using hl that by auto
  have tl: "\<exists>a. findOne (db s') (left u) = Some a \<and> mismos_puntos c a"
    if n: "left u \<noteq> WalletVacia" and c: "findOne (db s1) (left u) = Some c" for c
  proof -
    from hl n have "left u \<noteq> ?w" by simp
    from same[OF this] rama_derecha_keeps[OF r1 c] show ?thesis by simp
  qed
  have pul: "left ?u' = left u" "lPuntos ?u' = lPuntos (newL u2)"
            "lPersonas ?u' = lPersonas (newL u2)"
    using cl[of u2] cr[of "newL u2"] e2 by (simp_all add: activar_campos)
  from left_again[OF l1 lol exl tl pul e2(1,2)]
  obtain t1 newL' where l2: "rama_izquierda L s' ?u' = Some (t1, newL')"
    and nl: "\<And>v. lPuntos v = lPuntos ?u' \<and> lPersonas v = lPersonas ?u' \<Longrightarrow>
                lPuntos (newL' v) = lPuntos v \<and> lPersonas (newL' v) = lPersonas v"
    by blast
  \<comment> \<open>the right leg, read again after that\<close>
  have lor: "toLowerCase (right u) = right u" if "right u \<noteq> WalletVacia"
    using hr that by simp
  have exr: "\<exists>a. findOne (db s1) (right u) = Some a" if "right u \<noteq> WalletVacia"
  proof -
    from hr that obtain a where "findOne (db s) (right u) = Some a" by auto
    from rama_izquierda_keeps[OF l1 this] show ?thesis by blast
  qed
  have tr: "\<exists>a. findOne (db t1) (right u) = Some a \<and> mismos_puntos c a"
    if n: "right u \<noteq> WalletVacia" and c: "findOne (db s2) (right u) = Some c" for c
  proof -
    from hr n have "right u \<noteq> ?w" by simp
    from same[OF this] c have "findOne (db s') (right u) = Some c" by simp
    from rama_izquierda_keeps[OF l2 this] show ?thesis .
  qed
  have pur: "right ?u' = right u" "rPuntos ?u' = rPuntos (newR (newL u2))"
            "rPersonas ?u' = rPersonas (newR (newL u2))"
            "rPuntos (newL u2) = rPuntos u" "rPersonas (newL u2) = rPersonas u"
    using cl[of u2] cr[of "newL u2"] e2 by (simp_all add: activar_campos)
  from right_again[OF r1 lor exr tr pur]
  obtain t2 newR' where r2: "rama_derecha L t1 ?u' = Some (t2, newR')"
    and nr: "\<And>v. rPuntos v = rPuntos ?u' \<and> rPersonas v = rPersonas ?u' \<Longrightarrow>
                rPuntos (newR' v) = rPuntos v \<and> rPersonas (newR' v) = rPersonas v"
    by blast
  \<comment> \<open>the account's own document in the second run\<close>
  from rama_izquierda_keeps[OF l2 f'] obtain y1 where
    y1: "findOne (db t1) ?w = Some y1" "mismos_puntos ?u' y1" by blast
  from rama_derecha_keeps[OF r2 y1(1)] obtain y2 where
    y2: "findOne (db t2) ?w = Some y2" "mismos_puntos y1 y2" by blast
  have my: "mismos_puntos ?u' y2" using y1(2) y2(2) by (rule mismos_trans)
  note cl2 = rama_izquierda_campos[OF l2] and cr2 = rama_derecha_campos[OF r2]
  let ?x2 = "newR' (newL' y2)"
  let ?s3 = "update_db t2 ?w (\<lambda>v. newR' (newL' v))"
  have f3: "findOne (db ?s3) ?w = Some ?x2"
    using y2(1) cl2 cr2 by (simp add: update_db_db findOne_updateOne)
  let ?s4 = "update_db ?s3 ?w (\<lambda>v. v\<lparr>puntosActivos := puntosActivos (activar ?x2)\<rparr>)"
  have p: "puntos_activos ?s3 ?w = Some ?s4"
    using f3 unfolding puntos_activos_def toNumber_def activar_def by (simp add: Let_def)
  have f4: "findOne (db ?s4) ?w = Some (activar ?x2)"
    using f3 by (simp add: update_db_db findOne_updateOne activar_puntosActivos)
  have run2: "binariV2 L s' w0 = Some (?s4, True)"
    unfolding binariV2_def using f' l2 r2 p by (simp add: Let_def)
  \<comment> \<open>the fields\<close>
  have ey: "lPuntos y2 = lPuntos ?u'" "lPersonas y2 = lPersonas ?u'"
           "rPuntos y2 = rPuntos ?u'" "rPersonas y2 = rPersonas ?u'"
           "lExtra y2 = lExtra ?u'" "rExtra y2 = rExtra ?u'"
           "lReclamados y2 = lReclamados ?u'" "rReclamados y2 = rReclamados ?u'"
    using my by (simp_all add: mismos_puntos_def)
  have gl: "lPuntos ?x2 = lPuntos ?u' \<and> lPersonas ?x2 = lPersonas ?u'"
    using nl[of y2] cr2[of "newL' y2"] ey by simp
  have gr: "rPuntos ?x2 = rPuntos ?u' \<and> rPersonas ?x2 = rPersonas ?u'"
    using nr[of "newL' y2"] cl2[of y2] ey by simp
  have ge: "lExtra ?x2 = lExtra ?u'" "rExtra ?x2 = rExtra ?u'"
           "lReclamados ?x2 = lReclamados ?u'" "rReclamados ?x2 = rReclamados ?u'"
    using cl2[of y2] cr2[of "newL' y2"] ey by simp_all
  have ga: "puntosActivos (activar ?x2) = puntosActivos ?u'"
    using gl gr ge by (simp add: activar_def)
  show ?thesis
    apply (rule exI[of _ ?s4], rule exI[of _ ?u'], rule exI[of _ "activar ?x2"])
    using run2 f' f4 gl gr ga bt by (simp add: activar_campos)
qed

text \<open>
  The example network, aggregated twice.
\<close>

theorem aggregate_idempotent_witness:
  "findOne (db estado_red) (toLowerCase ''p'') = Some padre \<and>
   binariV2 ledger_red estado_red ''p'' = Some (estado_red_2, True) \<and>
   left padre \<noteq> toLowerCase ''p'' \<and> toLowerCase (left padre) = left padre \<and>
   findOne (db estado_red) (left padre) = Some hijo_b \<and>
   right padre \<noteq> toLowerCase ''p'' \<and> toLowerCase (right padre) = right padre \<and>
   findOne (db estado_red) (right padre) = Some hijo_c \<and>
   (\<exists>s'' u''. binariV2 ledger_red estado_red_2 ''p'' = Some (s'', True) \<and>
      findOne (db estado_red_2) ''p'' = Some padre_agregado \<and>
      findOne (db s'') ''p'' = Some u'' \<and>
      lPuntos u'' = 1050 \<and> rPuntos u'' = 60 \<and> lPersonas u'' = 3 \<and> rPersonas u'' = 1 \<and>
      puntosActivos u'' = 60)"
proof -
  have f: "findOne (db estado_red) (toLowerCase ''p'') = Some padre"
    by (simp add: lower_red red_defs findOne_def)
  have lp: "left padre = ''b''" "right padre = ''c''"
    by (simp_all add: red_defs)
  have fb: "findOne (db estado_red) (left padre) = Some hijo_b"
    and fc: "findOne (db estado_red) (right padre) = Some hijo_c"
    by (simp_all add: red_defs findOne_def)
  have n: "left padre \<noteq> toLowerCase ''p''" "right padre \<noteq> toLowerCase ''p''"
    by (simp_all add: lp lower_red)
  have lo: "toLowerCase (left padre) = left padre" "toLowerCase (right padre) = right padre"
    by (simp_all add: lp lower_red)
  have hl: "left padre = WalletVacia \<or>
             (left padre \<noteq> toLowerCase ''p'' \<and> toLowerCase (left padre) = left padre \<and>
              findOne (db estado_red) (left padre) \<noteq> None)"
    using n lo fb by simp
  have hr: "right padre = WalletVacia \<or>
             (right padre \<noteq> toLowerCase ''p'' \<and> toLowerCase (right padre) = right padre \<and>
              findOne (db estado_red) (right padre) \<noteq> None)"
    using n lo fc by simp
  have g: "findOne (db estado_red_2) ''p'' = Some padre_agregado"
    by (simp add: red_defs findOne_def)
  have v: "lPuntos padre_agregado = 1050" "rPuntos padre_agregado = 60"
    "lPersonas padre_agregado = 3" "rPersonas padre_agregado = 1"
    "puntosActivos padre_agregado = 60"
    by (simp_all add: red_defs)
  from aggregate_idempotent [OF f binariV2_red hl hr] g v
  have "\<exists>s'' u''. binariV2 ledger_red estado_red_2 ''p'' = Some (s'', True) \<and>
      findOne (db estado_red_2) ''p'' = Some padre_agregado \<and>
      findOne (db s'') ''p'' = Some u'' \<and>
      lPuntos u'' = 1050 \<and> rPuntos u'' = 60 \<and> lPersonas u'' = 3 \<and> rPersonas u'' = 1 \<and>
      puntosActivos u'' = 60"
    by (auto simp: lower_red)
  then show ?thesis
    using f binariV2_red n lo fb fc by simp
qed

end
